theory Spec2Isabelle
  imports Main "HOL-Library.Word"
begin

unbundle bit_operations_syntax

section \<open>The HSGAA asset archive (AssetArchive.h)\<close>

text \<open>
  A shallow embedding of the header-only C library \<^verbatim>\<open>AssetArchive.h\<close> on an LP64,
  little-endian target (pointers and \<^verbatim>\<open>size_t\<close> are 64 bits wide, multi-byte integers
  are stored in native byte order, least significant byte first).

  Bytes are \<open>8 word\<close>, addresses are \<open>64 word\<close>. A C string is modelled by its content:
  the bytes in front of the terminating NUL, so \<^verbatim>\<open>strlen\<close> is \<open>length\<close> and
  \<^verbatim>\<open>strcmp(a, b) == 0\<close> is \<open>a = b\<close>.
\<close>

type_synonym byte = "8 word"
type_synonym addr = "64 word"
type_synonym cstring = "byte list"

subsection \<open>Constants\<close>

definition MAGIC :: "byte list" where
  "MAGIC = [0x41, 0x41, 0x46, 0x00]"

definition VERSION :: int where
  "VERSION = 1"

definition FLAG_ALL_COMPRESSED :: byte where
  "FLAG_ALL_COMPRESSED = 0x01"

text \<open>
  \<^verbatim>\<open>sizeof(HSGAAEntry)\<close>: a pointer and two \<^verbatim>\<open>uint64_t\<close>, 24 bytes on LP64.
\<close>

definition sizeof_HSGAAEntry :: nat where
  "sizeof_HSGAAEntry = 24"

subsection \<open>Native byte order\<close>

text \<open>
  \<^verbatim>\<open>fwrite(&x, sizeof x, 1, f)\<close> emits the object representation of \<open>x\<close>:
  \<open>le_bytes n x\<close> is its first \<open>n\<close> bytes, \<open>le_word\<close> reads such a representation back
  (what \<^verbatim>\<open>fread(&x, sizeof x, 1, f)\<close> leaves in \<open>x\<close>).
\<close>

definition le_bytes :: "nat \<Rightarrow> 'a::len word \<Rightarrow> byte list" where
  "le_bytes n w = map (\<lambda>i. ucast (drop_bit (8 * i) w)) [0..<n]"

fun le_word :: "byte list \<Rightarrow> 'a::len word" where
  "le_word [] = 0"
| "le_word (b # bs) = ucast b OR push_bit 8 (le_word bs)"

subsection \<open>The zlib functions the header calls\<close>

text \<open>
  Modelled from the spec: zlib (\<^verbatim>\<open>zlib-1.3.1/zlib.h\<close>) is not among the sources.
  The spec fixes the name hash as CRC-32 with the standard polynomial and seed 0;
  \<open>crc32\<close> is zlib's function of that name: it returns the initial value 0 for a NULL
  buffer (\<open>None\<close>) and otherwise continues the checksum \<open>crc\<close> over the buffer with
  the reflected polynomial \<open>0xEDB88320\<close>, complementing on entry and on exit.
\<close>

definition crc32_shift :: "32 word \<Rightarrow> 32 word" where
  "crc32_shift c = (if bit c 0 then drop_bit 1 c XOR 0xEDB88320 else drop_bit 1 c)"

definition crc32_byte :: "32 word \<Rightarrow> byte \<Rightarrow> 32 word" where
  "crc32_byte c b = (crc32_shift ^^ 8) (c XOR ucast b)"

fun crc32 :: "32 word \<Rightarrow> byte list option \<Rightarrow> 32 word" where
  "crc32 crc None = 0"
| "crc32 crc (Some buf) = NOT (foldl crc32_byte (NOT crc) buf)"

text \<open>
  Modelled from the spec: zlib's \<^verbatim>\<open>compress\<close> and \<^verbatim>\<open>compressBound\<close> are not among the
  sources. The spec calls the codec a DEFLATE-family codec whose failure makes the add
  operation fail; the codec is the parameter \<open>deflate\<close>. The buffer contract is the one
  \<^verbatim>\<open>zlib.h\<close> documents: on entry \<open>destLen\<close> is the room in the destination buffer;
  the call returns \<open>Z_OK\<close> with the whole compressed stream when it fits and
  \<open>Z_BUF_ERROR\<close> when there is not enough room. The second component is what was
  written to the destination, whose length is \<open>destLen\<close> on exit.
\<close>

definition Z_OK :: int where
  "Z_OK = 0"

definition Z_BUF_ERROR :: int where
  "Z_BUF_ERROR = - 5"

definition compressBound :: "nat \<Rightarrow> nat" where
  "compressBound sourceLen =
     sourceLen + sourceLen div 2 ^ 12 + sourceLen div 2 ^ 14 + sourceLen div 2 ^ 25 + 13"

definition zlib_compress :: "(byte list \<Rightarrow> byte list) \<Rightarrow> nat \<Rightarrow> byte list \<Rightarrow> int \<times> byte list" where
  "zlib_compress deflate destLen source =
     (if length (deflate source) \<le> destLen then (Z_OK, deflate source)
      else (Z_BUF_ERROR, take destLen (deflate source)))"

subsection \<open>hash32\<close>

definition hash32 :: "cstring \<Rightarrow> 32 word" where
  "hash32 name = (let crc = crc32 0 None in crc32 crc (Some name))"

subsection \<open>Outcomes\<close>

text \<open>
  The C functions return \<^verbatim>\<open>void\<close> or a pointer that is NULL on failure, and report a
  failure by a message on \<^verbatim>\<open>stderr\<close>. Each message is a constructor of \<open>error\<close>:
  \<^item> \<open>Failed_to_open_file\<close>, \<open>Failed_to_open_archive_for_writing\<close>,
    \<open>Failed_to_open_archive_for_reading\<close>, \<open>Failed_to_open_file_for_extraction\<close>:
    \<^verbatim>\<open>fopen\<close> returned NULL (the spec's IOError);
  \<^item> \<open>Compression_failed\<close>: \<^verbatim>\<open>compress\<close> did not return \<open>Z_OK\<close> (CompressionError);
  \<^item> \<open>Invalid_magic\<close>: the magic comparison failed (FormatError);
  \<^item> \<open>File_not_found\<close>: no entry has the requested name (NotFoundError).

  The source checks neither the result of \<^verbatim>\<open>fread\<close> nor any pointer or index. Where
  the C standard leaves the behaviour undefined the model stops with \<open>Undefined\<close>:
  \<^item> \<open>Invalid_pointer p\<close>: bytes are read through \<open>p\<close>, which does not point to a live
    object of that many bytes;
  \<^item> \<open>Index_out_of_bounds i\<close>: an array is indexed at \<open>i\<close>, at or beyond its count;
  \<^item> \<open>Uninitialised_read\<close>: \<^verbatim>\<open>fread\<close> delivered fewer bytes than requested and the
    rest of the buffer, which was never written, is used;
  \<^item> \<open>Buffer_overflow\<close>: a write beyond the end of an allocated buffer.
  The state returned next to an \<open>Undefined\<close> outcome carries no meaning.
\<close>

datatype undefined_behaviour =
  Invalid_pointer addr
| Index_out_of_bounds nat
| Uninitialised_read
| Buffer_overflow

datatype error =
  Failed_to_open_file
| Compression_failed
| Failed_to_open_archive_for_writing
| Failed_to_open_archive_for_reading
| Invalid_magic
| Failed_to_open_file_for_extraction
| File_not_found
| Undefined undefined_behaviour

fun ebind :: "error + 'a \<Rightarrow> ('a \<Rightarrow> error + 'b) \<Rightarrow> error + 'b" where
  "ebind (Inl e) f = Inl e"
| "ebind (Inr x) f = f x"

subsection \<open>Data\<close>

text \<open>
  \<^verbatim>\<open>HSGAAEntry\<close> and \<^verbatim>\<open>HSGAAArchive\<close>. Each array of the struct and its count are one
  list: \<open>entry_count\<close> and \<open>image_chunk_count\<close> are lengths, and a NULL array with
  count 0, as \<^verbatim>\<open>hsgaa_create_archive\<close> stores it, is the empty list. A chunk is held
  as in C: the address of its buffer in \<open>image_chunks\<close>, its length in
  \<open>image_chunk_sizes\<close>; the bytes themselves are in the heap.
\<close>

record HSGAAEntry =
  name :: cstring
  offset :: "64 word"
  size_e :: "64 word"

record HSGAAArchive =
  entries :: "HSGAAEntry list"
  image_chunks :: "addr list"
  image_chunk_sizes :: "nat list"
  compress :: int

definition entry_count :: "HSGAAArchive \<Rightarrow> nat" where
  "entry_count archive = length (entries archive)"

definition image_chunk_count :: "HSGAAArchive \<Rightarrow> nat" where
  "image_chunk_count archive = length (image_chunks archive)"

text \<open>
  What the library acts on besides the archive: the files by path, the paths that
  \<^verbatim>\<open>fopen(path, "wb")\<close> can open, and the heap, which maps the address of each live
  \<^verbatim>\<open>malloc\<close> block to its bytes. \<^verbatim>\<open>free\<close> removes the block. The address that
  \<^verbatim>\<open>malloc\<close> returns is chosen by the allocator, a parameter \<open>alloc\<close> that is given the
  heap and the requested size. Every allocation succeeds, as the source takes for
  granted; the arrays of the archive and the names are held by value in the record.
\<close>

type_synonym heap = "addr \<rightharpoonup> byte list"

record world =
  files :: "cstring \<rightharpoonup> byte list"
  writable :: "cstring \<Rightarrow> bool"
  heap :: heap

definition load :: "heap \<Rightarrow> addr \<Rightarrow> nat \<Rightarrow> error + byte list" where
  "load h p n =
     (if n = 0 then Inr []
      else case h p of
             None \<Rightarrow> Inl (Undefined (Invalid_pointer p))
           | Some bs \<Rightarrow>
               if n \<le> length bs then Inr (take n bs)
               else Inl (Undefined (Invalid_pointer p)))"

definition fread :: "nat \<Rightarrow> byte list \<Rightarrow> error + byte list \<times> byte list" where
  "fread n stream =
     (if n \<le> length stream then Inr (take n stream, drop n stream)
      else Inl (Undefined Uninitialised_read))"

text \<open>
  \<^verbatim>\<open>strncmp(buf, lit, n) == 0\<close> for a buffer of which only the leading bytes \<open>buf\<close>
  have been written: the comparison ends at the first difference, at a NUL that both
  have, or after \<open>n\<close> bytes, and it is \<open>None\<close> when it has to go on to a byte that was
  never written.
\<close>

fun strncmp_eq :: "byte list \<Rightarrow> byte list \<Rightarrow> nat \<Rightarrow> bool option" where
  "strncmp_eq buf lit 0 = Some True"
| "strncmp_eq [] lit (Suc n) = None"
| "strncmp_eq (a # as) [] (Suc n) = None"
| "strncmp_eq (a # as) (b # bs) (Suc n) =
     (if a \<noteq> b then Some False else if a = 0 then Some True else strncmp_eq as bs n)"

subsection \<open>hsgaa_create_archive\<close>

definition hsgaa_create_archive :: "int \<Rightarrow> HSGAAArchive" where
  "hsgaa_create_archive c =
     \<lparr>entries = [], image_chunks = [], image_chunk_sizes = [], compress = c\<rparr>"

subsection \<open>hsgaa_add_file\<close>

text \<open>
  Lines 91 to 105: the new entry takes the path as its name, as its offset the last
  element of \<open>image_chunks\<close> (a buffer address, converted to \<^verbatim>\<open>uint64_t\<close>) or 0 when
  there is no chunk yet, and the stored size; the buffer address and the size are
  appended to the chunk arrays.
\<close>

definition append_entry :: "HSGAAArchive \<Rightarrow> cstring \<Rightarrow> addr \<Rightarrow> nat \<Rightarrow> HSGAAArchive" where
  "append_entry archive file_path compressed_data compressed_size =
     archive
       \<lparr>entries := entries archive @
          [\<lparr>name = file_path,
            offset = (if image_chunk_count archive \<noteq> 0 then last (image_chunks archive) else 0),
            size_e = of_nat compressed_size\<rparr>],
        image_chunks := image_chunks archive @ [compressed_data],
        image_chunk_sizes := image_chunk_sizes archive @ [compressed_size]\<rparr>"

text \<open>
  The whole function. The file is read into a fresh block \<open>raw_data\<close>. With
  compression the call is \<^verbatim>\<open>compress(compressed_data, &compressed_size, raw_data, raw_size)\<close>
  with \<^verbatim>\<open>compressed_size\<close> still 0 from its initialisation, so the room offered to
  zlib is 0; without compression the stored buffer is \<open>raw_data\<close> itself. The last
  statement frees \<open>raw_data\<close> on both paths. The checksum \<^verbatim>\<open>signature\<close> is computed
  and never used, so it has no counterpart here.
\<close>

definition hsgaa_add_file ::
  "(heap \<Rightarrow> nat \<Rightarrow> addr) \<Rightarrow> (byte list \<Rightarrow> byte list) \<Rightarrow> cstring \<Rightarrow>
     HSGAAArchive \<Rightarrow> world \<Rightarrow> error option \<times> HSGAAArchive \<times> world" where
  "hsgaa_add_file alloc deflate file_path archive w =
     (case files w file_path of
        None \<Rightarrow> (Some Failed_to_open_file, archive, w)
      | Some raw \<Rightarrow>
          (let raw_size = length raw;
               raw_data = alloc (heap w) raw_size;
               h1 = (heap w)(raw_data \<mapsto> raw)
           in if compress archive \<noteq> 0 then
                (let compressed_data = alloc h1 (compressBound raw_size);
                     (ret, out) = zlib_compress deflate 0 raw;
                     compressed_size = length out;
                     h2 = h1(compressed_data \<mapsto> out)
                 in if ret \<noteq> Z_OK then
                      (Some Compression_failed, archive,
                       w\<lparr>heap := h2(raw_data := None, compressed_data := None)\<rparr>)
                    else
                      (None, append_entry archive file_path compressed_data compressed_size,
                       w\<lparr>heap := h2(raw_data := None)\<rparr>))
              else
                (None, append_entry archive file_path raw_data raw_size,
                 w\<lparr>heap := h1(raw_data := None)\<rparr>)))"

subsection \<open>hsgaa_write_archive\<close>

text \<open>Line 120: the TOC offset that goes into the header.\<close>

definition toc_offset_of :: "HSGAAArchive \<Rightarrow> 64 word" where
  "toc_offset_of archive =
     4 + 1 + 1 + 8 + of_nat sizeof_HSGAAEntry * of_nat (entry_count archive)"

text \<open>
  Lines 126 to 128: each chunk is read from its buffer, \<open>image_chunk_sizes[i]\<close> bytes
  at \<open>image_chunks[i]\<close>.
\<close>

fun write_chunks :: "heap \<Rightarrow> addr list \<Rightarrow> nat list \<Rightarrow> nat \<Rightarrow> error + byte list" where
  "write_chunks h [] sizes i = Inr []"
| "write_chunks h (p # ps) [] i = Inl (Undefined (Index_out_of_bounds i))"
| "write_chunks h (p # ps) (n # ns) i =
     ebind (load h p n) (\<lambda>chunk.
     ebind (write_chunks h ps ns (Suc i)) (\<lambda>rest. Inr (chunk @ rest)))"

text \<open>
  Lines 131 to 141, the TOC. \<^verbatim>\<open>fwrite(&archive->entry_count, sizeof(uint32_t), 1, f)\<close>
  emits the first four bytes of the 8-byte \<^verbatim>\<open>size_t\<close>. \<open>name_len\<close> is \<^verbatim>\<open>strlen\<close>
  converted to \<^verbatim>\<open>uint32_t\<close>, and that many bytes of the name follow.
\<close>

definition toc_entry :: "HSGAAEntry \<Rightarrow> byte list" where
  "toc_entry entry =
     (let name_len = (of_nat (length (name entry)) :: 32 word);
          name_hash = hash32 (name entry)
      in le_bytes 4 name_hash @ le_bytes 8 (offset entry) @ le_bytes 8 (size_e entry) @
         le_bytes 4 name_len @ take (unat name_len) (name entry))"

fun toc_entries :: "HSGAAEntry list \<Rightarrow> byte list" where
  "toc_entries [] = []"
| "toc_entries (entry # es) = toc_entry entry @ toc_entries es"

definition toc_bytes :: "HSGAAArchive \<Rightarrow> byte list" where
  "toc_bytes archive =
     le_bytes 4 (of_nat (entry_count archive) :: 64 word) @ toc_entries (entries archive)"

text \<open>
  The whole function. \<^verbatim>\<open>fwrite(VERSION, sizeof(uint8_t), 1, f)\<close> passes the integer 1
  where \<^verbatim>\<open>fwrite\<close> expects the address of the data, so the version byte of the file is
  the byte that is read at address 1.
\<close>

definition hsgaa_write_archive :: "cstring \<Rightarrow> HSGAAArchive \<Rightarrow> world \<Rightarrow> error option \<times> world" where
  "hsgaa_write_archive output_path archive w =
     (if \<not> writable w output_path then (Some Failed_to_open_archive_for_writing, w)
      else
        (let flags = (if compress archive \<noteq> 0 then FLAG_ALL_COMPRESSED else 0);
             toc_offset = toc_offset_of archive
         in case
              ebind (load (heap w) (of_int VERSION) 1) (\<lambda>version.
              ebind (write_chunks (heap w) (image_chunks archive) (image_chunk_sizes archive) 0)
                (\<lambda>chunks.
                   Inr (MAGIC @ version @ [flags] @ le_bytes 8 toc_offset @ chunks @
                        toc_bytes archive)))
            of
              Inl e \<Rightarrow> (Some e, w\<lparr>files := (files w)(output_path \<mapsto> [])\<rparr>)
            | Inr stream \<Rightarrow> (None, w\<lparr>files := (files w)(output_path \<mapsto> stream)\<rparr>)))"

subsection \<open>hsgaa_read_archive\<close>

text \<open>
  Lines 178 to 194: one TOC record. The name hash is read and dropped. The name buffer
  has \<open>name_len + 1\<close> bytes, computed in \<^verbatim>\<open>uint32_t\<close>: for \<open>name_len = 0xFFFFFFFF\<close>
  that is 0 bytes, and the terminator is written beyond it. The entry's name is the C
  string in the buffer, which ends at the first NUL; when the file ends inside the name
  and the bytes that were read hold no NUL, the string runs into bytes that were never
  written.
\<close>

fun read_entries :: "nat \<Rightarrow> byte list \<Rightarrow> error + HSGAAEntry list" where
  "read_entries 0 stream = Inr []"
| "read_entries (Suc k) stream =
     ebind (fread 4 stream) (\<lambda>(name_hash, s1).
     ebind (fread 8 s1) (\<lambda>(offset_bytes, s2).
     ebind (fread 8 s2) (\<lambda>(size_bytes, s3).
     ebind (fread 4 s3) (\<lambda>(len_bytes, s4).
       let name_len = (le_word len_bytes :: 32 word);
           name_bytes = take (unat name_len) s4;
           s5 = drop (unat name_len) s4
       in if name_len + 1 = 0 then Inl (Undefined Buffer_overflow)
          else if length name_bytes < unat name_len \<and> 0 \<notin> set name_bytes then
            Inl (Undefined Uninitialised_read)
          else
            ebind (read_entries k s5) (\<lambda>rest.
              Inr (\<lparr>name = takeWhile (\<lambda>b. b \<noteq> 0) name_bytes,
                    offset = le_word offset_bytes,
                    size_e = le_word size_bytes\<rparr> # rest))))))"

text \<open>
  The whole function. The magic is compared on the bytes that \<^verbatim>\<open>fread\<close> delivered, at
  most four. \<^verbatim>\<open>fseek(f, toc_offset, SEEK_SET)\<close> takes a \<^verbatim>\<open>long\<close>: an offset that is
  negative as a signed 64-bit value makes it fail, and the position stays behind the 14
  header bytes. The result is the archive, or the error with which NULL is returned.
  The chunk arrays are left as \<^verbatim>\<open>hsgaa_create_archive\<close> made them.
\<close>

definition hsgaa_read_archive :: "cstring \<Rightarrow> world \<Rightarrow> error + HSGAAArchive" where
  "hsgaa_read_archive archive_path w =
     (case files w archive_path of
        None \<Rightarrow> Inl Failed_to_open_archive_for_reading
      | Some content \<Rightarrow>
          (let magic = take 4 content; s1 = drop 4 content
           in case strncmp_eq magic MAGIC 4 of
                None \<Rightarrow> Inl (Undefined Uninitialised_read)
              | Some False \<Rightarrow> Inl Invalid_magic
              | Some True \<Rightarrow>
                  ebind (fread 1 s1) (\<lambda>(version, s2).
                  ebind (fread 1 s2) (\<lambda>(flags, s3).
                  ebind (fread 8 s3) (\<lambda>(toc_bytes_read, s4).
                    let toc_offset = (le_word toc_bytes_read :: 64 word);
                        pos = (if sint toc_offset < 0 then 14 else unat toc_offset)
                    in
                      ebind (fread 4 (drop pos content)) (\<lambda>(count_bytes, s5).
                        let entry_count = (le_word count_bytes :: 32 word)
                        in
                          ebind (read_entries (unat entry_count) s5) (\<lambda>es.
                            Inr ((hsgaa_create_archive
                                    (uint ((le_word flags :: byte) AND FLAG_ALL_COMPRESSED)))
                                   \<lparr>entries := es\<rparr>))))))))"

subsection \<open>hsgaa_list_entries and hsgaa_extract_file\<close>

definition hsgaa_list_entries :: "HSGAAArchive \<Rightarrow> cstring list" where
  "hsgaa_list_entries archive = map name (entries archive)"

text \<open>Lines 209 to 221: the index of the first entry whose name compares equal.\<close>

fun find_entry :: "cstring \<Rightarrow> HSGAAEntry list \<Rightarrow> nat \<Rightarrow> nat option" where
  "find_entry file_name [] i = None"
| "find_entry file_name (entry # es) i =
     (if name entry = file_name then Some i else find_entry file_name es (Suc i))"

text \<open>
  The whole function: at the first match the output file is opened, then
  \<open>image_chunk_sizes[i]\<close> bytes at \<open>image_chunks[i]\<close> are written to it. The archive is
  returned as it is left.
\<close>

definition hsgaa_extract_file ::
  "cstring \<Rightarrow> cstring \<Rightarrow> HSGAAArchive \<Rightarrow> world \<Rightarrow> error option \<times> HSGAAArchive \<times> world" where
  "hsgaa_extract_file file_name output_path archive w =
     (case find_entry file_name (entries archive) 0 of
        None \<Rightarrow> (Some File_not_found, archive, w)
      | Some i \<Rightarrow>
          if \<not> writable w output_path then (Some Failed_to_open_file_for_extraction, archive, w)
          else if image_chunk_count archive \<le> i \<or> length (image_chunk_sizes archive) \<le> i then
            (Some (Undefined (Index_out_of_bounds i)), archive,
             w\<lparr>files := (files w)(output_path \<mapsto> [])\<rparr>)
          else
            (case load (heap w) (image_chunks archive ! i) (image_chunk_sizes archive ! i) of
               Inl e \<Rightarrow> (Some e, archive, w\<lparr>files := (files w)(output_path \<mapsto> [])\<rparr>)
             | Inr chunk \<Rightarrow> (None, archive, w\<lparr>files := (files w)(output_path \<mapsto> chunk)\<rparr>)))"

subsection \<open>The TOC layout of the format description\<close>

text \<open>
  The layout as the format description words it, for comparison with \<open>toc_bytes\<close>: a
  32-bit entry count, then one record per entry in order, each a 32-bit CRC-32 of the
  name (seed 0), the 64-bit offset, the 64-bit size, the 32-bit name length and that
  many bytes of the name, without terminator.
\<close>

definition toc_record_layout :: "HSGAAEntry \<Rightarrow> byte list" where
  "toc_record_layout e =
     (let name_length = (of_nat (length (name e)) :: 32 word)
      in le_bytes 4 (crc32 0 (Some (name e))) @ le_bytes 8 (offset e) @
         le_bytes 8 (size_e e) @ le_bytes 4 name_length @ take (unat name_length) (name e))"

definition toc_layout :: "HSGAAEntry list \<Rightarrow> byte list" where
  "toc_layout es =
     le_bytes 4 (of_nat (length es) :: 32 word) @ concat (map toc_record_layout es)"

subsection \<open>Concrete inputs\<close>

text \<open>
  The paths \<^verbatim>\<open>a.bin\<close>, \<^verbatim>\<open>b.bin\<close>, \<^verbatim>\<open>x.aaf\<close> and \<^verbatim>\<open>out\<close>, and the archive file of
  the format description for one file \<^verbatim>\<open>a.bin\<close> with the bytes 1, 2, 3 stored without
  compression: the header with TOC offset 17, the chunk at offset 14, and the TOC with
  one record. \<open>disk\<close> holds that archive as \<^verbatim>\<open>x.aaf\<close> next to the files \<^verbatim>\<open>a.bin\<close>
  and \<^verbatim>\<open>b.bin\<close>; every path can be opened for writing and the heap is empty.
\<close>

definition a_bin :: cstring where
  "a_bin = [0x61, 0x2E, 0x62, 0x69, 0x6E]"

definition b_bin :: cstring where
  "b_bin = [0x62, 0x2E, 0x62, 0x69, 0x6E]"

definition x_aaf :: cstring where
  "x_aaf = [0x78, 0x2E, 0x61, 0x61, 0x66]"

definition out_path :: cstring where
  "out_path = [0x6F, 0x75, 0x74]"

definition example_file :: "byte list" where
  "example_file =
     MAGIC @ [1, 0] @ le_bytes 8 (17 :: 64 word) @
     [1, 2, 3] @
     le_bytes 4 (1 :: 32 word) @
     le_bytes 4 (hash32 a_bin) @ le_bytes 8 (14 :: 64 word) @ le_bytes 8 (3 :: 64 word) @
     le_bytes 4 (5 :: 32 word) @ a_bin"

definition disk :: world where
  "disk = \<lparr>files = [x_aaf \<mapsto> example_file, a_bin \<mapsto> [1, 2, 3], b_bin \<mapsto> [4, 5, 6, 7, 8]],
           writable = (\<lambda>p. True), heap = Map.empty\<rparr>"

text \<open>The archive that reading \<^verbatim>\<open>x.aaf\<close> gives.\<close>

definition loaded :: HSGAAArchive where
  "loaded =
     \<lparr>entries = [\<lparr>name = a_bin, offset = 14, size_e = 3\<rparr>],
      image_chunks = [], image_chunk_sizes = [], compress = 0\<rparr>"

text \<open>
  An allocator that hands out the block at \<open>0x1000\<close> whenever it is free, as an allocator
  that reuses the block freed last does, and a stand-in codec whose output is never
  empty.
\<close>

definition reuse_alloc :: "heap \<Rightarrow> nat \<Rightarrow> addr" where
  "reuse_alloc h n = (if h 0x1000 = None then 0x1000 else 0x2000)"

definition toy_deflate :: "byte list \<Rightarrow> byte list" where
  "toy_deflate source = [0x78, 0x01] @ source"

text \<open>
  The archives that adding \<^verbatim>\<open>a.bin\<close>, and then \<^verbatim>\<open>b.bin\<close>, to an empty archive without
  compression gives on \<open>disk\<close> with that allocator, and the archive after \<open>2^32\<close>
  additions of \<^verbatim>\<open>a.bin\<close>.
\<close>

definition built :: HSGAAArchive where
  "built =
     \<lparr>entries = [\<lparr>name = a_bin, offset = 0, size_e = 3\<rparr>],
      image_chunks = [0x1000], image_chunk_sizes = [3], compress = 0\<rparr>"

definition built2 :: HSGAAArchive where
  "built2 =
     \<lparr>entries = [\<lparr>name = a_bin, offset = 0, size_e = 3\<rparr>,
                 \<lparr>name = b_bin, offset = 0x1000, size_e = 5\<rparr>],
      image_chunks = [0x1000, 0x1000], image_chunk_sizes = [3, 5], compress = 0\<rparr>"

definition built_n :: "nat \<Rightarrow> HSGAAArchive" where
  "built_n n =
     \<lparr>entries = \<lparr>name = a_bin, offset = 0, size_e = 3\<rparr> #
                 replicate n \<lparr>name = a_bin, offset = 0x1000, size_e = 3\<rparr>,
      image_chunks = replicate (Suc n) 0x1000, image_chunk_sizes = replicate (Suc n) 3,
      compress = 0\<rparr>"

definition huge :: HSGAAArchive where
  "huge = built_n 4294967295"

text \<open>
  A world in which the chunk buffer of \<open>built\<close> is readable and a byte can be read at
  address 1.
\<close>

definition live :: world where
  "live = disk\<lparr>heap := [0x1000 \<mapsto> [1, 2, 3], 1 \<mapsto> [1]]\<rparr>"

text \<open>
  The same disk with \<^verbatim>\<open>x.aaf\<close> cut off after the three bytes \<^verbatim>\<open>AAF\<close>, inside the
  magic.
\<close>

definition truncated :: world where
  "truncated = disk\<lparr>files := (files disk)(x_aaf \<mapsto> [0x41, 0x41, 0x46])\<rparr>"

section \<open>Properties\<close>

subsection \<open>Byte order\<close>

lemma le_bytes_4:
  "le_bytes 4 w = [ucast w, ucast (drop_bit 8 w), ucast (drop_bit 16 w), ucast (drop_bit 24 w)]"
  by (simp add: le_bytes_def upt_rec)

lemma le_bytes_8:
  "le_bytes 8 w =
     [ucast w, ucast (drop_bit 8 w), ucast (drop_bit 16 w), ucast (drop_bit 24 w),
      ucast (drop_bit 32 w), ucast (drop_bit 40 w), ucast (drop_bit 48 w),
      ucast (drop_bit 56 w)]"
  by (simp add: le_bytes_def upt_rec)

lemma le_bytes_Suc: "le_bytes (Suc n) w = ucast w # le_bytes n (drop_bit 8 w)"
proof -
  have "[0..<Suc n] = 0 # map Suc [0..<n]"
    by (simp add: upt_conv_Cons map_Suc_upt del: upt_Suc)
  then show ?thesis
    by (simp add: le_bytes_def add.commute del: upt_Suc)
qed

lemma length_le_bytes: "length (le_bytes n w) = n"
  by (simp add: le_bytes_def)

lemma le_word_le_bytes:
  "(le_word (le_bytes n w) :: 'a::len word) = take_bit (8 * n) (w :: 'a word)"
proof (induction n arbitrary: w)
  case 0
  then show ?case by (simp add: le_bytes_def)
next
  case (Suc n)
  have "(ucast (ucast w :: byte) :: 'a word) OR push_bit 8 (take_bit (8 * n) (drop_bit 8 w)) =
        take_bit (8 * Suc n) w"
  proof (rule bit_word_eqI)
    fix i
    assume "i < LENGTH('a)"
    then show "bit ((ucast (ucast w :: byte) :: 'a word) OR
                    push_bit 8 (take_bit (8 * n) (drop_bit 8 w))) i =
               bit (take_bit (8 * Suc n) w) i"
      by (cases "i < 8") (auto simp: bit_simps)
  qed
  with Suc show ?case by (simp add: le_bytes_Suc)
qed

lemma le_word_le_bytes_32: "le_word (le_bytes 4 w) = (w :: 32 word)"
  by (simp add: le_word_le_bytes take_bit_word_eq_self)

lemma le_bytes_ucast: "n \<le> 4 \<Longrightarrow> le_bytes n (w :: 64 word) = le_bytes n (ucast w :: 32 word)"
  by (auto simp: le_bytes_def intro!: bit_word_eqI simp: bit_simps)

lemma of_nat_32_64: "(ucast (of_nat n :: 64 word) :: 32 word) = of_nat n"
  by (rule bit_word_eqI) (auto simp: bit_simps)

subsection \<open>The checksum\<close>

text \<open>The CRC-32 of the one byte \<^verbatim>\<open>a\<close> is \<open>0xE8B7BE43\<close>.\<close>

lemma hash32_check: "hash32 [0x61] = 0xE8B7BE43"
  by code_simp

lemma hash32_crc32: "hash32 n = crc32 0 (Some n)"
  by (simp add: hash32_def)

subsection \<open>The concrete inputs\<close>

lemma short_list:
  assumes "length m \<le> 4"
  obtains "m = []" | a where "m = [a]" | a b where "m = [a, b]"
    | a b c where "m = [a, b, c]" | a b c d where "m = [a, b, c, d]"
proof (cases m)
  case Nil
  then show ?thesis using that by simp
next
  case m1: (Cons a m1)
  show ?thesis
  proof (cases m1)
    case Nil
    with m1 show ?thesis using that by simp
  next
    case m2: (Cons b m2)
    show ?thesis
    proof (cases m2)
      case Nil
      with m1 m2 show ?thesis using that by simp
    next
      case m3: (Cons c m3)
      show ?thesis
      proof (cases m3)
        case Nil
        with m1 m2 m3 show ?thesis using that by simp
      next
        case m4: (Cons d m4)
        with m1 m2 m3 assms have "m4 = []" by simp
        with m1 m2 m3 m4 show ?thesis using that by simp
      qed
    qed
  qed
qed

lemma strncmp_magic_Suc:
  assumes "length m \<le> 4"
  shows "strncmp_eq m MAGIC (Suc (Suc (Suc (Suc 0)))) =
           (if m = MAGIC then Some True
            else if m = take (length m) MAGIC then None else Some False)"
  using assms by (cases m rule: short_list) (auto simp: MAGIC_def)

lemma strncmp_magic:
  assumes "length m \<le> 4"
  shows "strncmp_eq m MAGIC 4 =
           (if m = MAGIC then Some True
            else if m = take (length m) MAGIC then None else Some False)"
proof -
  have four: "(4::nat) = Suc (Suc (Suc (Suc 0)))"
    by simp
  have "strncmp_eq m MAGIC 4 = strncmp_eq m MAGIC (Suc (Suc (Suc (Suc 0))))"
    by (simp only: four)
  with strncmp_magic_Suc [OF assms] show ?thesis
    by (simp only:)
qed

lemma strncmp_magic_differs:
  assumes d: "take 4 content \<noteq> take (length content) MAGIC"
  shows "strncmp_eq (take 4 content) MAGIC 4 = Some False"
proof -
  have l: "take (length (take 4 content)) MAGIC = take (length content) MAGIC"
    by (simp add: MAGIC_def min_def)
  have "take 4 content \<noteq> MAGIC"
  proof
    assume e: "take 4 content = MAGIC"
    then have "length (take 4 content) = 4"
      by (simp add: MAGIC_def)
    then have "4 \<le> length content"
      by simp
    then have "take (length content) MAGIC = MAGIC"
      by (simp add: MAGIC_def)
    with e d show False
      by simp
  qed
  with d l show ?thesis
    by (simp add: strncmp_magic)
qed

lemma strncmp_magic_same: "strncmp_eq MAGIC MAGIC 4 = Some True"
proof -
  have "length MAGIC \<le> 4"
    by (simp add: MAGIC_def)
  from strncmp_magic [OF this] show ?thesis
    by simp
qed

lemma read_example: "hsgaa_read_archive x_aaf disk = Inr loaded"
proof -
  have c: "files disk x_aaf = Some example_file"
    by (simp add: disk_def x_aaf_def a_bin_def b_bin_def)
  have m: "take 4 example_file = MAGIC"
    by (simp add: example_file_def MAGIC_def)
  show ?thesis
    unfolding hsgaa_read_archive_def c
    by (simp add: m strncmp_magic_same)
       (simp add: example_file_def MAGIC_def le_bytes_4 le_bytes_8 fread_def loaded_def
          hsgaa_create_archive_def a_bin_def FLAG_ALL_COMPRESSED_def)
qed


lemma add_a_bin:
  "hsgaa_add_file reuse_alloc toy_deflate a_bin (hsgaa_create_archive 0) disk =
     (None, built, disk)"
  unfolding hsgaa_add_file_def
  by (simp add: disk_def hsgaa_create_archive_def)
     (simp add: built_def append_entry_def image_chunk_count_def reuse_alloc_def a_bin_def
        b_bin_def x_aaf_def)

lemma add_b_bin:
  "hsgaa_add_file reuse_alloc toy_deflate b_bin built disk = (None, built2, disk)"
  unfolding hsgaa_add_file_def
  by (simp add: disk_def built_def)
     (simp add: built2_def append_entry_def image_chunk_count_def reuse_alloc_def a_bin_def
        b_bin_def x_aaf_def)

lemma built_n_0: "built_n 0 = built"
  by (simp add: built_n_def built_def)

lemma add_a_bin_again:
  "hsgaa_add_file reuse_alloc toy_deflate a_bin (built_n n) disk =
     (None, built_n (Suc n), disk)"
  unfolding hsgaa_add_file_def
proof -
  have three: "Suc (Suc (Suc 0)) = 3"
    by simp
  show "(case files disk a_bin of
     None \<Rightarrow> (Some Failed_to_open_file, built_n n, disk)
     | Some raw \<Rightarrow>
         let raw_size = length raw; raw_data = reuse_alloc (heap disk) raw_size;
             h1 = (heap disk)(raw_data \<mapsto> raw)
         in if compress (built_n n) \<noteq> 0
            then let compressed_data = reuse_alloc h1 (compressBound raw_size);
                     (ret, out) = zlib_compress toy_deflate 0 raw;
                     compressed_size = length out; h2 = h1(compressed_data \<mapsto> out)
                 in if ret \<noteq> Z_OK
                    then (Some Compression_failed, built_n n,
                          disk\<lparr>heap := h2(raw_data := None, compressed_data := None)\<rparr>)
                    else (None, append_entry (built_n n) a_bin compressed_data compressed_size,
                          disk\<lparr>heap := h2(raw_data := None)\<rparr>)
            else (None, append_entry (built_n n) a_bin raw_data raw_size,
                  disk\<lparr>heap := h1(raw_data := None)\<rparr>)) =
    (None, built_n (Suc n), disk)"
    by (simp add: disk_def built_n_def)
       (simp add: append_entry_def image_chunk_count_def reuse_alloc_def a_bin_def b_bin_def
          x_aaf_def replicate_append_same three)
qed

text \<open>\<open>Suc n\<close> additions of \<^verbatim>\<open>a.bin\<close> to an empty archive give \<open>built_n n\<close>.\<close>

lemma add_repeated:
  "((\<lambda>(e :: error option, a, w). hsgaa_add_file reuse_alloc toy_deflate a_bin a w) ^^ Suc n)
     (None, hsgaa_create_archive 0, disk) = (None, built_n n, disk)"
proof (induction n)
  case 0
  show ?case by (simp add: add_a_bin built_n_0)
next
  case (Suc n)
  have "((\<lambda>(e :: error option, a, w). hsgaa_add_file reuse_alloc toy_deflate a_bin a w) ^^
           Suc (Suc n)) (None, hsgaa_create_archive 0, disk) =
        (\<lambda>(e :: error option, a, w). hsgaa_add_file reuse_alloc toy_deflate a_bin a w)
          (((\<lambda>(e :: error option, a, w). hsgaa_add_file reuse_alloc toy_deflate a_bin a w) ^^
              Suc n) (None, hsgaa_create_archive 0, disk))"
    by simp
  also have "\<dots> = (None, built_n (Suc n), disk)"
    unfolding Suc.IH by (simp add: add_a_bin_again)
  finally show ?case .
qed

lemma huge_is_built:
  "((\<lambda>(e :: error option, a, w). hsgaa_add_file reuse_alloc toy_deflate a_bin a w) ^^
      4294967296) (None, hsgaa_create_archive 0, disk) = (None, huge, disk)"
proof -
  have "(4294967296::nat) = Suc 4294967295"
    by simp
  then show ?thesis
    unfolding huge_def using add_repeated [of 4294967295] by simp
qed

subsection \<open>Writing: what every call depends on\<close>

text \<open>
  A write can only go through when a byte is readable at address 1, and a chunk added
  without compression is no longer in the heap when \<^verbatim>\<open>hsgaa_add_file\<close> returns.
\<close>

lemma write_needs_address_1:
  "writable w output_path \<Longrightarrow> heap w 1 = None \<Longrightarrow>
   fst (hsgaa_write_archive output_path archive w) = Some (Undefined (Invalid_pointer 1))"
  by (simp add: hsgaa_write_archive_def load_def VERSION_def)

lemma add_file_frees_chunk:
  "compress archive = 0 \<Longrightarrow>
   hsgaa_add_file alloc deflate file_path archive w = (None, archive', w') \<Longrightarrow>
   image_chunks archive' \<noteq> [] \<and> heap w' (last (image_chunks archive')) = None"
  by (auto simp: hsgaa_add_file_def append_entry_def Let_def split: option.splits)

text \<open>
  For any allocator, the first entry of an archive gets the offset 0 and every later
  entry added without compression gets the address of the chunk buffer before it; the
  TOC offset of the header is 14 plus 24 for each entry, whatever the chunks hold.
\<close>

lemma first_entry_offset:
  "files w file_path = Some raw \<Longrightarrow>
   map offset (entries (fst (snd (hsgaa_add_file alloc deflate file_path
     (hsgaa_create_archive 0) w)))) = [0]"
  by (simp add: hsgaa_add_file_def hsgaa_create_archive_def append_entry_def
      image_chunk_count_def Let_def)

lemma next_entry_offset:
  "compress archive = 0 \<Longrightarrow> image_chunks archive \<noteq> [] \<Longrightarrow>
   files w file_path = Some raw \<Longrightarrow>
   offset (last (entries (fst (snd (hsgaa_add_file alloc deflate file_path archive w))))) =
     last (image_chunks archive)"
  by (simp add: hsgaa_add_file_def append_entry_def image_chunk_count_def Let_def)

lemma toc_offset_of_eq: "toc_offset_of archive = 14 + 24 * of_nat (entry_count archive)"
  by (simp add: toc_offset_of_def sizeof_HSGAAEntry_def)

text \<open>
  C1. The round trip without compression does not go through. On \<open>disk\<close>, adding
  \<^verbatim>\<open>a.bin\<close> (bytes 1, 2, 3) to an empty archive succeeds, but writing the archive reads
  the version byte through address 1, which is undefined behaviour; and in a heap where
  address 1 holds a byte, the write reads the chunk through the buffer that
  \<^verbatim>\<open>hsgaa_add_file\<close> has already freed.
\<close>

theorem roundtrip_write_undefined:
  "hsgaa_add_file reuse_alloc toy_deflate a_bin (hsgaa_create_archive 0) disk =
     (None, built, disk) \<and>
   fst (hsgaa_write_archive out_path built disk) = Some (Undefined (Invalid_pointer 1)) \<and>
   fst (hsgaa_write_archive out_path built (disk\<lparr>heap := [1 \<mapsto> [1]]\<rparr>)) =
     Some (Undefined (Invalid_pointer 0x1000))"
proof (intro conjI)
  show "hsgaa_add_file reuse_alloc toy_deflate a_bin (hsgaa_create_archive 0) disk =
          (None, built, disk)"
    by (rule add_a_bin)
  show "fst (hsgaa_write_archive out_path built disk) = Some (Undefined (Invalid_pointer 1))"
    by (simp add: hsgaa_write_archive_def disk_def built_def load_def VERSION_def)
  show "fst (hsgaa_write_archive out_path built (disk\<lparr>heap := [1 \<mapsto> [1]]\<rparr>)) =
          Some (Undefined (Invalid_pointer 0x1000))"
    by (simp add: hsgaa_write_archive_def disk_def built_def load_def VERSION_def)
qed

text \<open>
  C2. The entry offsets are not the contiguous file offsets that start at 14. Adding
  \<^verbatim>\<open>a.bin\<close> (3 bytes) and then \<^verbatim>\<open>b.bin\<close> (5 bytes) to an empty archive gives the
  offsets 0 and \<open>0x1000\<close>: 0 for the first entry, and for the second the address of the
  first chunk's buffer.
\<close>

theorem add_file_offsets:
  "(case hsgaa_add_file reuse_alloc toy_deflate a_bin (hsgaa_create_archive 0) disk of
      (e1, a1, w1) \<Rightarrow>
        (case hsgaa_add_file reuse_alloc toy_deflate b_bin a1 w1 of
           (e2, a2, w2) \<Rightarrow>
             e1 = None \<and> e2 = None \<and> map offset (entries a1) = [0] \<and>
             map offset (entries a2) = [0, 0x1000] \<and> map size_e (entries a2) = [3, 5]))"
  by (simp add: add_a_bin add_b_bin) (simp add: built_def built2_def)

text \<open>
  C3. The stream is the header, the chunks in order and the TOC, but the TOC offset in
  the header is not 14 plus the chunk bytes. For \<open>built\<close>, one entry with a chunk of
  3 bytes, written in a world where the write goes through, the header carries 38, that
  is 14 + 24 * 1, while header and chunk are 17 bytes and the TOC follows them.
\<close>

theorem write_toc_offset_field:
  "toc_offset_of built = 38 \<and>
   hsgaa_write_archive out_path built live =
     (None, live\<lparr>files := (files live)(out_path \<mapsto>
        MAGIC @ [1, 0] @ le_bytes 8 (38 :: 64 word) @ [1, 2, 3] @ toc_bytes built)\<rparr>) \<and>
   length (MAGIC @ [1, 0] @ le_bytes 8 (38 :: 64 word) @ [1, 2, 3]) = 17"
  by (simp add: hsgaa_write_archive_def live_def built_def load_def VERSION_def
      toc_offset_of_def sizeof_HSGAAEntry_def entry_count_def disk_def MAGIC_def le_bytes_8)

text \<open>
  C4. Extraction from a loaded archive neither seeks nor reads the file. The file
  \<^verbatim>\<open>x.aaf\<close> holds the bytes 1, 2, 3 at the entry's offset 14; reading it gives
  \<open>loaded\<close>, and extracting \<^verbatim>\<open>a.bin\<close> from that indexes the empty chunk arrays at 0,
  which is undefined behaviour.
\<close>

theorem extract_after_read_undefined:
  "hsgaa_read_archive x_aaf disk = Inr loaded \<and>
   take 3 (drop 14 example_file) = [1, 2, 3] \<and>
   hsgaa_extract_file a_bin out_path loaded disk =
     (Some (Undefined (Index_out_of_bounds 0)), loaded,
      disk\<lparr>files := (files disk)(out_path \<mapsto> [])\<rparr>)"
  by (simp add: read_example)
     (simp add: hsgaa_extract_file_def loaded_def disk_def image_chunk_count_def
        example_file_def MAGIC_def le_bytes_8)

subsection \<open>Adding with compression\<close>

text \<open>
  C5. In an archive with compression enabled every add fails and returns the archive
  as it was: when the file cannot be opened with "Failed to open file", otherwise with
  "Compression failed", because zlib is offered a destination of length 0 and no
  compressed stream is empty.
\<close>

theorem add_file_compress_fails:
  assumes "compress archive \<noteq> 0" and "\<And>source. deflate source \<noteq> []"
  shows "fst (hsgaa_add_file alloc deflate file_path archive w) =
           Some (if files w file_path = None then Failed_to_open_file
                 else Compression_failed) \<and>
         fst (snd (hsgaa_add_file alloc deflate file_path archive w)) = archive"
  using assms
  by (auto simp: hsgaa_add_file_def zlib_compress_def Let_def Z_OK_def Z_BUF_ERROR_def
      split: option.splits)

theorem add_file_compress_fails_witness:
  "compress (hsgaa_create_archive 1) \<noteq> 0 \<and> (\<forall>source. toy_deflate source \<noteq> []) \<and>
   fst (hsgaa_add_file reuse_alloc toy_deflate a_bin (hsgaa_create_archive 1) disk) =
     Some Compression_failed \<and>
   fst (snd (hsgaa_add_file reuse_alloc toy_deflate a_bin (hsgaa_create_archive 1) disk)) =
     hsgaa_create_archive 1"
proof -
  have c: "compress (hsgaa_create_archive 1) \<noteq> 0"
    by (simp add: hsgaa_create_archive_def)
  have d: "toy_deflate source \<noteq> []" for source
    by (simp add: toy_deflate_def)
  have f: "files disk a_bin \<noteq> None"
    by (simp add: disk_def a_bin_def x_aaf_def)
  from add_file_compress_fails [of "hsgaa_create_archive 1" toy_deflate reuse_alloc a_bin disk,
      OF c d] c d f
  show ?thesis
    by simp
qed

subsection \<open>Reading, then extracting\<close>

lemma read_archive_chunks:
  "hsgaa_read_archive archive_path w = Inr archive \<Longrightarrow>
   image_chunks archive = [] \<and> image_chunk_sizes archive = []"
  unfolding hsgaa_read_archive_def
  by (auto simp: hsgaa_create_archive_def fread_def Let_def
      split: option.splits bool.splits sum.splits if_splits prod.splits elim!: ebind.elims)

lemma find_entry_None: "find_entry n es i = None \<longleftrightarrow> (\<forall>e\<in>set es. name e \<noteq> n)"
  by (induction es arbitrary: i) auto

lemma find_entry_Some_iff: "(\<exists>j. find_entry n es i = Some j) \<longleftrightarrow> (\<exists>e\<in>set es. name e = n)"
  using find_entry_None [of n es i] by auto

text \<open>
  C6. An archive that \<^verbatim>\<open>hsgaa_read_archive\<close> returns has no chunks: both chunk arrays
  are as \<^verbatim>\<open>hsgaa_create_archive\<close> left them, NULL with \<open>image_chunk_count = 0\<close>, however
  many entries were read. So for the name of any of its entries the loop of
  \<^verbatim>\<open>hsgaa_extract_file\<close> stops at an index \<open>i\<close> that is not below \<open>image_chunk_count\<close>,
  and unless the output file cannot be opened, the chunk arrays are indexed there, out
  of bounds.
\<close>

theorem read_archive_has_no_chunks:
  assumes "hsgaa_read_archive archive_path w = Inr archive"
  shows "image_chunk_count archive = 0 \<and> image_chunks archive = [] \<and>
         image_chunk_sizes archive = [] \<and>
         (\<forall>e\<in>set (entries archive). \<exists>i.
            find_entry (name e) (entries archive) 0 = Some i \<and>
            image_chunk_count archive \<le> i \<and>
            fst (hsgaa_extract_file (name e) output_path archive w') =
              (if writable w' output_path then Some (Undefined (Index_out_of_bounds i))
               else Some Failed_to_open_file_for_extraction))"
proof -
  from read_archive_chunks [OF assms]
  have c: "image_chunks archive = []" "image_chunk_sizes archive = []"
    by simp_all
  have "\<exists>i. find_entry (name e) (entries archive) 0 = Some i \<and>
             image_chunk_count archive \<le> i \<and>
             fst (hsgaa_extract_file (name e) output_path archive w') =
               (if writable w' output_path then Some (Undefined (Index_out_of_bounds i))
                else Some Failed_to_open_file_for_extraction)"
    if "e \<in> set (entries archive)" for e
  proof -
    from that find_entry_Some_iff [of "name e" "entries archive" 0]
    obtain i where "find_entry (name e) (entries archive) 0 = Some i"
      by auto
    then show ?thesis
      by (simp add: hsgaa_extract_file_def image_chunk_count_def c)
  qed
  with c show ?thesis
    by (simp add: image_chunk_count_def)
qed

theorem read_archive_has_no_chunks_witness:
  "hsgaa_read_archive x_aaf disk = Inr loaded \<and> entry_count loaded = 1 \<and>
   image_chunk_count loaded = 0 \<and> image_chunks loaded = [] \<and>
   image_chunk_sizes loaded = [] \<and>
   fst (hsgaa_extract_file a_bin out_path loaded disk) =
     Some (Undefined (Index_out_of_bounds 0))"
proof -
  have e: "entries loaded = [\<lparr>name = a_bin, offset = 14, size_e = 3\<rparr>]"
    by (simp add: loaded_def)
  have w: "writable disk out_path"
    by (simp add: disk_def)
  from read_archive_has_no_chunks [OF read_example, of out_path disk] read_example e w
  show ?thesis
    by (auto simp: entry_count_def)
qed

text \<open>
  C10. When no entry of the archive has the requested name, extraction reports
  "File not found" (the spec's NotFoundError) and returns the archive and the world as
  they were: no file is opened or written, the heap is as before, and the entries are
  untouched. The outcome is the same for every heap, also one in which no chunk pointer
  is valid, so no chunk is read on this path.
\<close>

theorem extract_missing_name:
  "\<forall>e\<in>set (entries archive). name e \<noteq> file_name \<Longrightarrow>
   hsgaa_extract_file file_name output_path archive w = (Some File_not_found, archive, w)"
  by (simp add: hsgaa_extract_file_def find_entry_None [THEN iffD2])

theorem extract_missing_name_witness:
  "map name (entries loaded) = [a_bin] \<and> a_bin \<noteq> b_bin \<and>
   hsgaa_extract_file b_bin out_path loaded disk = (Some File_not_found, loaded, disk)"
proof -
  have m: "map name (entries loaded) = [a_bin]"
    by (simp add: loaded_def)
  have d: "a_bin \<noteq> b_bin"
    by (simp add: a_bin_def b_bin_def)
  from m d have h: "\<forall>e\<in>set (entries loaded). name e \<noteq> b_bin"
    by (auto simp: loaded_def)
  from extract_missing_name [OF h, of out_path disk] m d show ?thesis
    by simp
qed

subsection \<open>The header\<close>

text \<open>
  C7. The version byte of the written header is not the constant 1. Writing an empty
  archive on \<open>disk\<close>, where nothing is readable at address 1, is undefined behaviour;
  where address 1 holds the byte \<open>0x2A\<close>, the header is the magic, the version byte
  \<open>0x2A\<close>, the flags byte 0 and the 8-byte TOC offset 14, followed by the empty TOC.
\<close>

theorem write_version_byte:
  "fst (hsgaa_write_archive out_path (hsgaa_create_archive 0) disk) =
     Some (Undefined (Invalid_pointer 1)) \<and>
   files (snd (hsgaa_write_archive out_path (hsgaa_create_archive 0)
                 (disk\<lparr>heap := [1 \<mapsto> [0x2A]]\<rparr>))) out_path =
     Some (MAGIC @ [0x2A, 0] @ le_bytes 8 (14 :: 64 word) @ le_bytes 4 (0 :: 32 word))"
  by (simp add: hsgaa_write_archive_def hsgaa_create_archive_def load_def VERSION_def
      toc_offset_of_def sizeof_HSGAAEntry_def entry_count_def disk_def MAGIC_def le_bytes_8
      le_bytes_4 toc_bytes_def)

subsection \<open>The TOC\<close>

lemma toc_entry_layout: "toc_entry e = toc_record_layout e"
  by (simp add: toc_entry_def toc_record_layout_def hash32_crc32)

lemma toc_entries_layout: "toc_entries es = concat (map toc_record_layout es)"
  by (induction es) (simp_all add: toc_entry_layout)

lemma toc_bytes_layout: "toc_bytes archive = toc_layout (entries archive)"
  by (simp add: toc_bytes_def toc_layout_def toc_entries_layout entry_count_def
      le_bytes_ucast of_nat_32_64)

lemma length_toc_record: "length (toc_record_layout e) = 24 + length (name e) mod 2 ^ 32"
  by (simp add: toc_record_layout_def length_le_bytes Let_def unat_of_nat min_def)

text \<open>For a name shorter than \<open>2^32\<close> bytes the record ends with the whole name.\<close>

lemma toc_record_short_name:
  "length (name e) < 2 ^ 32 \<Longrightarrow>
   toc_record_layout e =
     le_bytes 4 (crc32 0 (Some (name e))) @ le_bytes 8 (offset e) @ le_bytes 8 (size_e e) @
     le_bytes 4 (of_nat (length (name e)) :: 32 word) @ name e"
  by (simp add: toc_record_layout_def Let_def unat_of_nat)

text \<open>
  C8, as stated, fails for the archive after \<open>2^32\<close> additions: its entry count is
  \<open>2^32\<close>, the four bytes written for the count are 0, and \<open>2^32\<close> records of 29 bytes
  follow them.
\<close>

theorem toc_count_wraps:
  "entry_count huge = 4294967296 \<and> take 4 (toc_bytes huge) = [0, 0, 0, 0] \<and>
   unat (le_word (take 4 (toc_bytes huge)) :: 32 word) \<noteq> entry_count huge \<and>
   drop 4 (toc_bytes huge) = concat (map toc_entry (entries huge)) \<and>
   length (map toc_entry (entries huge)) = 4294967296 \<and>
   length (toc_entries (entries huge)) = 4294967296 * 29"
  by (simp add: huge_def built_n_def entry_count_def toc_bytes_def le_bytes_4
      toc_entries_layout toc_entry_layout length_concat length_toc_record a_bin_def comp_def
      sum_list_replicate)

text \<open>
  C8, amended. For an archive with fewer than \<open>2^32\<close> entries the serialized TOC is the
  layout of the format description: the 32-bit entry count, then for each entry in
  insertion order the 32-bit CRC-32 of the name, the 64-bit offset, the 64-bit size, the
  32-bit name length and that many name bytes without terminator; and the count that
  the first four bytes declare is the number of records that follow.
\<close>

theorem toc_bytes_is_layout:
  assumes "entry_count archive < 2 ^ 32"
  shows "toc_bytes archive = toc_layout (entries archive) \<and>
         toc_layout (entries archive) =
           le_bytes 4 (of_nat (entry_count archive) :: 32 word) @
           concat (map toc_record_layout (entries archive)) \<and>
         unat (le_word (take 4 (toc_bytes archive)) :: 32 word) =
           length (map toc_record_layout (entries archive))"
  using assms
  by (simp add: toc_bytes_layout toc_layout_def length_le_bytes le_word_le_bytes_32
      entry_count_def unat_of_nat)

theorem toc_bytes_is_layout_witness:
  "entry_count built2 < 2 ^ 32 \<and> toc_bytes built2 = toc_layout (entries built2) \<and>
   unat (le_word (take 4 (toc_bytes built2)) :: 32 word) = 2"
proof -
  have h: "entry_count built2 < 2 ^ 32"
    by (simp add: entry_count_def built2_def)
  have l: "length (entries built2) = 2"
    by (simp add: built2_def)
  from toc_bytes_is_layout [OF h]
  have t: "toc_bytes built2 = toc_layout (entries built2)"
    and u: "unat (le_word (take 4 (toc_bytes built2)) :: 32 word) =
            length (map toc_record_layout (entries built2))"
    by blast+
  from u l have "unat (le_word (take 4 (toc_bytes built2)) :: 32 word) = 2"
    by (simp only: length_map)
  with h t show ?thesis
    by blast
qed

subsection \<open>The magic check\<close>

text \<open>
  Where the bytes that were read already differ from the magic, the file is rejected
  with "Invalid magic in archive" (the spec's FormatError) and NULL is returned: so for
  every file of four bytes or more whose first four bytes are not the magic, and for
  every shorter file that is not a leading part of the magic.
\<close>

lemma read_rejects_differing_bytes:
  "files w archive_path = Some content \<Longrightarrow>
   take 4 content \<noteq> take (length content) MAGIC \<Longrightarrow>
   hsgaa_read_archive archive_path w = Inl Invalid_magic"
  by (simp add: hsgaa_read_archive_def strncmp_magic_differs)

lemma read_rejects_long_file:
  "files w archive_path = Some content \<Longrightarrow> 4 \<le> length content \<Longrightarrow>
   take 4 content \<noteq> MAGIC \<Longrightarrow>
   hsgaa_read_archive archive_path w = Inl Invalid_magic"
proof -
  assume f: "files w archive_path = Some content" and l: "4 \<le> length content"
    and m: "take 4 content \<noteq> MAGIC"
  from l have "take (length content) MAGIC = MAGIC"
    by (simp add: MAGIC_def)
  with m have "take 4 content \<noteq> take (length content) MAGIC"
    by simp
  with f show ?thesis
    by (rule read_rejects_differing_bytes)
qed

text \<open>
  A file that ends inside the magic is not rejected that way: \<^verbatim>\<open>fread\<close> delivers
  fewer than four bytes, its result is not checked, and the comparison goes on to a byte
  of \<open>magic\<close> that was never written.
\<close>

lemma read_leading_part_of_magic:
  "files w archive_path = Some content \<Longrightarrow> length content < 4 \<Longrightarrow>
   content = take (length content) MAGIC \<Longrightarrow>
   hsgaa_read_archive archive_path w = Inl (Undefined Uninitialised_read)"
proof -
  assume f: "files w archive_path = Some content" and l: "length content < 4"
    and c: "content = take (length content) MAGIC"
  from l have t: "take 4 content = content"
    by simp
  from l have n: "content \<noteq> MAGIC"
    by (auto simp: MAGIC_def)
  from l have "length content \<le> 4"
    by simp
  from strncmp_magic [OF this] n c have "strncmp_eq content MAGIC 4 = None"
    by simp
  with f t show ?thesis
    by (simp add: hsgaa_read_archive_def)
qed

text \<open>
  C9. The claim fails for the file that holds the three bytes \<^verbatim>\<open>AAF\<close>: its first four
  bytes are not the magic constant, and \<^verbatim>\<open>hsgaa_read_archive\<close> does not answer with
  "Invalid magic in archive"; what it does depends on the byte of \<open>magic\<close> that was
  never written.
\<close>

theorem read_truncated_magic:
  "files truncated x_aaf = Some [0x41, 0x41, 0x46] \<and>
   take 4 [0x41, 0x41, 0x46 :: byte] \<noteq> MAGIC \<and>
   hsgaa_read_archive x_aaf truncated \<noteq> Inl Invalid_magic \<and>
   hsgaa_read_archive x_aaf truncated = Inl (Undefined Uninitialised_read)"
proof -
  have f: "files truncated x_aaf = Some [0x41, 0x41, 0x46]"
    by (simp add: truncated_def)
  have m: "take 4 [0x41, 0x41, 0x46 :: byte] \<noteq> MAGIC"
    by (simp add: MAGIC_def)
  have "hsgaa_read_archive x_aaf truncated = Inl (Undefined Uninitialised_read)"
    by (rule read_leading_part_of_magic [OF f]) (simp_all add: MAGIC_def)
  with f m show ?thesis
    by simp
qed

end
